theory Spec2Isabelle
  imports Complex_Main "HOL-Library.Word"
begin

section \<open>The values of the source language\<close>

text \<open>
  The program is TypeScript. Its \<open>number\<close> values are the binary64 floating-point
  numbers: \<open>NaN\<close>, the two infinities and the finite values, each finite value given by
  the rational number it is. Every operation of the source that can round (a product, a
  quotient, reading a literal) computes the exact result and rounds it with \<open>binary64\<close>
  below. The sign of zero is not modelled: no expression of the program tells the two
  zeros apart.
\<close>

datatype number = NaN | Finite rat | PosInfinity | NegInfinity

text \<open>A power of two with an integer exponent.\<close>

definition pow2 :: "int \<Rightarrow> rat" where
  "pow2 e = (if 0 \<le> e then 2 ^ nat e else 1 / 2 ^ nat (- e))"

text \<open>Rounding to the nearest integer, a tie to the even one.\<close>

definition roundTiesToEven :: "rat \<Rightarrow> int" where
  "roundTiesToEven q =
     (if q - of_int \<lfloor>q\<rfloor> < 1 / 2 then \<lfloor>q\<rfloor>
      else if 1 / 2 < q - of_int \<lfloor>q\<rfloor> then \<lfloor>q\<rfloor> + 1
      else if even \<lfloor>q\<rfloor> then \<lfloor>q\<rfloor> else \<lfloor>q\<rfloor> + 1)"

text \<open>
  The binary exponent of a positive rational \<open>a\<close>, the integer \<open>k\<close> with
  \<open>2^k \<le> a < 2^(k+1)\<close>: by halving when \<open>a\<close> is at least 1 and by doubling otherwise.
\<close>

function log2_up :: "rat \<Rightarrow> int" where
  "log2_up a = (if a < 2 then 0 else log2_up (a / 2) + 1)"
  by pat_completeness auto
termination
proof (relation "measure (\<lambda>a. nat \<lfloor>a\<rfloor>)")
  show "wf (measure (\<lambda>a::rat. nat \<lfloor>a\<rfloor>))" by simp
next
  fix a :: rat
  assume "\<not> a < 2"
  then have "a / 2 \<le> a - 1" by simp
  then have "\<lfloor>a / 2\<rfloor> \<le> \<lfloor>a - 1\<rfloor>" by (rule floor_mono)
  moreover have "1 \<le> \<lfloor>a\<rfloor>" using \<open>\<not> a < 2\<close> by (simp add: le_floor_iff)
  ultimately show "(a / 2, a) \<in> measure (\<lambda>a. nat \<lfloor>a\<rfloor>)" by simp
qed

function log2_down :: "rat \<Rightarrow> int" where
  "log2_down a = (if 1 \<le> a \<or> a \<le> 0 then 0 else log2_down (2 * a) - 1)"
  by pat_completeness auto
termination
proof (relation "measure (\<lambda>a. nat \<lfloor>1 / a\<rfloor>)")
  show "wf (measure (\<lambda>a::rat. nat \<lfloor>1 / a\<rfloor>))" by simp
next
  fix a :: rat
  assume "\<not> (1 \<le> a \<or> a \<le> 0)"
  then have a: "0 < a" "a < 1" by simp_all
  then have y: "1 < 1 / a" by simp
  have pos: "1 \<le> \<lfloor>1 / a\<rfloor>" using y by (simp add: le_floor_iff)
  have "\<lfloor>1 / (2 * a)\<rfloor> < \<lfloor>1 / a\<rfloor>"
  proof (cases "2 \<le> 1 / a")
    case True
    then have "1 / (2 * a) \<le> 1 / a - 1" using a by (simp add: field_simps)
    then have "\<lfloor>1 / (2 * a)\<rfloor> \<le> \<lfloor>1 / a - 1\<rfloor>" by (rule floor_mono)
    then show ?thesis by simp
  next
    case False
    then have "1 / (2 * a) < 1" using a by (simp add: field_simps)
    then have "\<lfloor>1 / (2 * a)\<rfloor> < 1" by (simp add: floor_less_iff)
    with pos show ?thesis by linarith
  qed
  with pos show "(2 * a, a) \<in> measure (\<lambda>a. nat \<lfloor>1 / a\<rfloor>)" by simp
qed

declare log2_up.simps [simp del]
declare log2_down.simps [simp del]

definition ilog2 :: "rat \<Rightarrow> int" where
  "ilog2 a = (if 1 \<le> a then log2_up a else log2_down a)"

text \<open>
  The binary64 number nearest to the rational \<open>q\<close>, a tie to the one with the even
  significand. The magnitude is measured in units of the last place, \<open>2^e\<close>: 52 binary
  places below the leading one, and \<open>2^-1074\<close> throughout the subnormal range below
  \<open>2^-1022\<close>. A magnitude that rounds to \<open>2^1024\<close> or more is an infinity.
\<close>

definition binary64 :: "rat \<Rightarrow> number" where
  "binary64 q =
     (let e = (if \<bar>q\<bar> < pow2 (- 1022) then - 1074 else ilog2 \<bar>q\<bar> - 52);
          v = of_int (roundTiesToEven (\<bar>q\<bar> / pow2 e)) * pow2 e
      in if pow2 1024 \<le> v then (if 0 < q then PosInfinity else NegInfinity)
         else Finite (if 0 \<le> q then v else - v))"

text \<open>The relational operator \<open><=\<close> on numbers: false as soon as one side is \<open>NaN\<close>.\<close>

fun num_le :: "number \<Rightarrow> number \<Rightarrow> bool" where
  "num_le NaN _ = False"
| "num_le _ NaN = False"
| "num_le (Finite a) (Finite b) = (a \<le> b)"
| "num_le NegInfinity _ = True"
| "num_le _ PosInfinity = True"
| "num_le PosInfinity _ = False"
| "num_le _ NegInfinity = False"

text \<open>Unary minus, which is exact.\<close>

fun num_negate :: "number \<Rightarrow> number" where
  "num_negate NaN = NaN"
| "num_negate (Finite a) = Finite (- a)"
| "num_negate PosInfinity = NegInfinity"
| "num_negate NegInfinity = PosInfinity"

text \<open>
  The operator \<open>*\<close>: the rounded product of two finite numbers; an infinity times zero
  is \<open>NaN\<close>, otherwise the signs multiply.
\<close>

fun num_times :: "number \<Rightarrow> number \<Rightarrow> number" where
  "num_times NaN _ = NaN"
| "num_times _ NaN = NaN"
| "num_times (Finite a) (Finite b) = binary64 (a * b)"
| "num_times PosInfinity (Finite b) =
     (if b = 0 then NaN else if 0 < b then PosInfinity else NegInfinity)"
| "num_times NegInfinity (Finite b) =
     (if b = 0 then NaN else if 0 < b then NegInfinity else PosInfinity)"
| "num_times (Finite a) PosInfinity =
     (if a = 0 then NaN else if 0 < a then PosInfinity else NegInfinity)"
| "num_times (Finite a) NegInfinity =
     (if a = 0 then NaN else if 0 < a then NegInfinity else PosInfinity)"
| "num_times PosInfinity PosInfinity = PosInfinity"
| "num_times PosInfinity NegInfinity = NegInfinity"
| "num_times NegInfinity PosInfinity = NegInfinity"
| "num_times NegInfinity NegInfinity = PosInfinity"

text \<open>
  The operator \<open>/\<close>: the rounded quotient of two finite numbers; a non-zero number over
  zero is an infinity, zero over zero and an infinity over an infinity are \<open>NaN\<close>.
\<close>

fun num_divide :: "number \<Rightarrow> number \<Rightarrow> number" where
  "num_divide NaN _ = NaN"
| "num_divide _ NaN = NaN"
| "num_divide (Finite a) (Finite b) =
     (if b = 0 then (if a = 0 then NaN else if 0 < a then PosInfinity else NegInfinity)
      else binary64 (a / b))"
| "num_divide PosInfinity (Finite b) = (if 0 \<le> b then PosInfinity else NegInfinity)"
| "num_divide NegInfinity (Finite b) = (if 0 \<le> b then NegInfinity else PosInfinity)"
| "num_divide (Finite a) _ = Finite 0"
| "num_divide _ _ = NaN"

text \<open>\<open>Math.floor\<close>.\<close>

fun Math_floor :: "number \<Rightarrow> number" where
  "Math_floor (Finite a) = Finite (of_int \<lfloor>a\<rfloor>)"
| "Math_floor n = n"

text \<open>
  A string is a list of code units; the model has the code units below 256. The white
  space and line terminator code units in that range are the ones \<open>trim\<close> and the number
  parsers skip.
\<close>

definition isWhiteSpace :: "char \<Rightarrow> bool" where
  "isWhiteSpace c = ((of_char c :: nat) \<in> {9, 10, 11, 12, 13, 32, 160})"

definition trimStart :: "string \<Rightarrow> string" where
  "trimStart s = dropWhile isWhiteSpace s"

definition trim :: "string \<Rightarrow> string" where
  "trim s = rev (dropWhile isWhiteSpace (rev (dropWhile isWhiteSpace s)))"

definition isDecimalDigit :: "char \<Rightarrow> bool" where
  "isDecimalDigit c = (48 \<le> (of_char c :: nat) \<and> (of_char c :: nat) \<le> 57)"

definition digitsValue :: "nat \<Rightarrow> (char \<Rightarrow> nat) \<Rightarrow> string \<Rightarrow> nat" where
  "digitsValue base digit ds = foldl (\<lambda>a c. base * a + digit c) 0 ds"

definition decimalDigit :: "char \<Rightarrow> nat" where
  "decimalDigit c = of_char c - 48"

definition scale10 :: "rat \<Rightarrow> int \<Rightarrow> rat" where
  "scale10 m e = (if e \<ge> 0 then m * 10 ^ nat e else m / 10 ^ nat (- e))"

text \<open>
  The grammar \<open>StrDecimalLiteral\<close> of the language standard, read as \<open>parseFloat\<close> reads
  it: the longest prefix of the string that is a literal, with its value (the decimal
  value, rounded) and the rest of the string; \<open>None\<close> when no prefix is a literal. An
  exponent indicator that no digit follows is not part of the literal.
\<close>

definition exponentPart :: "string \<Rightarrow> int \<times> string" where
  "exponentPart s =
     (case s of
        [] \<Rightarrow> (0, s)
      | e # r \<Rightarrow>
          if e = CHR ''e'' \<or> e = CHR ''E'' then
            (let neg = (take 1 r = ''-'');
                 r1 = (if take 1 r = ''-'' \<or> take 1 r = ''+'' then drop 1 r else r);
                 ds = takeWhile isDecimalDigit r1
             in if ds = [] then (0, s)
                else ((if neg then - int (digitsValue 10 decimalDigit ds)
                       else int (digitsValue 10 decimalDigit ds)),
                      dropWhile isDecimalDigit r1))
          else (0, s))"

definition strUnsignedDecimalLiteral :: "string \<Rightarrow> (number \<times> string) option" where
  "strUnsignedDecimalLiteral s =
     (if take 8 s = ''Infinity'' then Some (PosInfinity, drop 8 s)
      else
        (let ip = takeWhile isDecimalDigit s;
             r = dropWhile isDecimalDigit s;
             dot = (take 1 r = ''.'');
             fp = (if dot then takeWhile isDecimalDigit (drop 1 r) else []);
             r2 = (if dot then dropWhile isDecimalDigit (drop 1 r) else r)
         in if ip = [] \<and> fp = [] then None
            else
              (let m = of_nat (digitsValue 10 decimalDigit ip)
                       + of_nat (digitsValue 10 decimalDigit fp) / 10 ^ length fp;
                   ex = exponentPart r2
               in Some (binary64 (scale10 m (fst ex)), snd ex))))"

definition strDecimalLiteral :: "string \<Rightarrow> (number \<times> string) option" where
  "strDecimalLiteral s =
     (if take 1 s = ''-'' then
        (case strUnsignedDecimalLiteral (drop 1 s) of
           None \<Rightarrow> None
         | Some (v, r) \<Rightarrow> Some (num_negate v, r))
      else if take 1 s = ''+'' then strUnsignedDecimalLiteral (drop 1 s)
      else strUnsignedDecimalLiteral s)"

text \<open>The global function \<open>parseFloat\<close>.\<close>

definition parseFloat :: "string \<Rightarrow> number" where
  "parseFloat s =
     (case strDecimalLiteral (trimStart s) of None \<Rightarrow> NaN | Some (v, r) \<Rightarrow> v)"

text \<open>
  A value of any type (\<open>any\<close> in the source): what \<open>cvToValue\<close> hands back for a
  listing, and what the wallet hands to \<open>onFinish\<close>. An object is its list of
  properties; the first entry of a key is the property.
\<close>

datatype js_value =
    Undefined
  | Null
  | Boolean bool
  | NumberV number
  | BigIntV int
  | StringV string
  | ArrayV "js_value list"
  | ObjectV "(string \<times> js_value) list"

text \<open>The conversion to boolean that \<open>if\<close>, \<open>!\<close> and \<open>||\<close> apply.\<close>

fun truthy :: "js_value \<Rightarrow> bool" where
  "truthy Undefined = False"
| "truthy Null = False"
| "truthy (Boolean b) = b"
| "truthy (NumberV n) = (n \<noteq> NaN \<and> n \<noteq> Finite 0)"
| "truthy (BigIntV i) = (i \<noteq> 0)"
| "truthy (StringV s) = (s \<noteq> [])"
| "truthy (ArrayV xs) = True"
| "truthy (ObjectV fs) = True"

text \<open>The operator \<open>||\<close>: the left operand when it is truthy, the right one otherwise.\<close>

definition or_else :: "js_value \<Rightarrow> js_value \<Rightarrow> js_value" where
  "or_else a b = (if truthy a then a else b)"

text \<open>
  Property access \<open>v.k\<close> or \<open>v["k"]\<close> for the keys the program reads (\<open>title\<close>,
  \<open>description\<close>, \<open>content-hash\<close>, \<open>contentHash\<close>, \<open>price\<close>, \<open>author\<close>,
  \<open>created-at\<close>, \<open>createdAt\<close>, \<open>active\<close>, \<open>txId\<close>): a value that is not an object
  has none of them. The program reads properties of truthy values only, except in the
  wallet's \<open>onFinish\<close>, where \<open>handleSubmit\<close> below treats \<open>null\<close> and \<open>undefined\<close>
  apart.
\<close>

fun get_prop :: "js_value \<Rightarrow> string \<Rightarrow> js_value" where
  "get_prop (ObjectV fs) k = (case map_of fs k of None \<Rightarrow> Undefined | Some v \<Rightarrow> v)"
| "get_prop v k = Undefined"

text \<open>
  Strict equality \<open>===\<close>. Two objects (or arrays) are equal only when they are the same
  object; the operands the program compares come from different places (a reply of the
  contract against the session's address or the literal \<open>false\<close>), so they never are.
\<close>

fun strict_eq :: "js_value \<Rightarrow> js_value \<Rightarrow> bool" where
  "strict_eq Undefined Undefined = True"
| "strict_eq Null Null = True"
| "strict_eq (Boolean a) (Boolean b) = (a = b)"
| "strict_eq (NumberV a) (NumberV b) = (a \<noteq> NaN \<and> a = b)"
| "strict_eq (BigIntV a) (BigIntV b) = (a = b)"
| "strict_eq (StringV a) (StringV b) = (a = b)"
| "strict_eq a b = False"

text \<open>
  The conversion \<open>Number(v)\<close>. A string converts when the whole of it, white space
  trimmed, is a decimal literal or a hexadecimal, octal or binary integer literal, and
  the empty string converts to 0. A plain object converts to \<open>NaN\<close>. An array converts
  through its string form, the elements' string forms joined by commas (empty for
  \<open>null\<close> and \<open>undefined\<close>): so only an array of at most one element can convert.
\<close>

definition isDigitOf :: "nat \<Rightarrow> char \<Rightarrow> bool" where
  "isDigitOf base c =
     (let n = (of_char c :: nat) in
      (48 \<le> n \<and> n < 48 + min base 10)
      \<or> (97 \<le> n \<and> n + 10 < 97 + base)
      \<or> (65 \<le> n \<and> n + 10 < 65 + base))"

definition digitOf :: "char \<Rightarrow> nat" where
  "digitOf c =
     (let n = (of_char c :: nat) in
      if 97 \<le> n then n - 87 else if 65 \<le> n then n - 55 else n - 48)"

definition nonDecimalIntegerLiteral :: "string \<Rightarrow> number" where
  "nonDecimalIntegerLiteral t =
     (let base = (if take 2 t = ''0x'' \<or> take 2 t = ''0X'' then 16
                  else if take 2 t = ''0o'' \<or> take 2 t = ''0O'' then 8
                  else if take 2 t = ''0b'' \<or> take 2 t = ''0B'' then 2
                  else 0);
          ds = drop 2 t
      in if base = 0 then NaN
         else if ds = [] then NaN
         else if filter (isDigitOf base) ds = ds
           then binary64 (of_nat (digitsValue base digitOf ds))
         else NaN)"

definition StringToNumber :: "string \<Rightarrow> number" where
  "StringToNumber s =
     (let t = trim s in
      if t = [] then Finite 0
      else (case strDecimalLiteral t of
              None \<Rightarrow> nonDecimalIntegerLiteral t
            | Some (v, r) \<Rightarrow> if r = [] then v else nonDecimalIntegerLiteral t))"

fun Number :: "js_value \<Rightarrow> number" where
  "Number Undefined = NaN"
| "Number Null = Finite 0"
| "Number (Boolean b) = (if b then Finite 1 else Finite 0)"
| "Number (NumberV n) = n"
| "Number (BigIntV i) = binary64 (of_int i)"
| "Number (StringV s) = StringToNumber s"
| "Number (ObjectV fs) = NaN"
| "Number (ArrayV []) = Finite 0"
| "Number (ArrayV [Undefined]) = Finite 0"
| "Number (ArrayV [Null]) = Finite 0"
| "Number (ArrayV [Boolean b]) = NaN"
| "Number (ArrayV [ObjectV fs]) = NaN"
| "Number (ArrayV [x]) = Number x"
| "Number (ArrayV (x # y # zs)) = NaN"

section \<open>The session holder (services/stacks.ts)\<close>

text \<open>
  What the session functions read: whether a \<open>window\<close> exists, the wallet library's
  persisted session (\<open>userSession.isUserSignedIn()\<close> and the two account identifiers
  of \<open>userSession.loadUserData().profile.stxAddress\<close>) and the environment variable
  \<open>NEXT_PUBLIC_NETWORK\<close> (\<open>None\<close> when it is not set).
\<close>

record browser =
  window_defined :: bool
  isUserSignedIn :: bool
  stxAddress_mainnet :: string
  stxAddress_testnet :: string
  NEXT_PUBLIC_NETWORK :: "string option"

definition isSignedIn :: "browser \<Rightarrow> bool" where
  "isSignedIn b = (if \<not> window_defined b then False else isUserSignedIn b)"

text \<open>\<open>process.env.NEXT_PUBLIC_NETWORK || "mainnet"\<close>: unset and empty both give the default.\<close>

definition network_or_default :: "browser \<Rightarrow> string" where
  "network_or_default b =
     (case NEXT_PUBLIC_NETWORK b of
        None \<Rightarrow> ''mainnet''
      | Some n \<Rightarrow> if n = [] then ''mainnet'' else n)"

text \<open>\<open>getUserAddress\<close>; \<open>None\<close> is \<open>null\<close>.\<close>

definition getUserAddress :: "browser \<Rightarrow> string option" where
  "getUserAddress b =
     (if \<not> isSignedIn b then None
      else
        (let network = network_or_default b;
             address = (if network = ''mainnet'' then stxAddress_mainnet b
                        else stxAddress_testnet b)
         in Some address))"

section \<open>The read-access layer (services/stacks.ts)\<close>

text \<open>
  The body of a \<open>try\<close> either throws or returns.
\<close>

datatype 'a outcome = Throws | Returns 'a

text \<open>
  The remote contract, as the program sees it through \<open>callReadOnlyFunction\<close> and
  \<open>cvToValue\<close>: one reply per read-only function and argument list, \<open>Throws\<close> when
  building the arguments, the request or the decoding throws. The replies are a function
  of the request: the contract's state does not change while one operation runs. A
  reply has the type the source declares for it: the listing is \<open>any\<close>, the count is the
  contract's unsigned integer behind \<open>Number(...)\<close>, an id list is an array of listing
  ids or \<open>null\<close>/\<open>undefined\<close> (\<open>None\<close>), the two checks are booleans. Listing ids are
  natural numbers. The network descriptor that \<open>getNetwork\<close> hands to each call says
  where the contract is and has no part in what a function returns; it is left out, and
  so is the console output.
\<close>

record contract =
  get_ebook :: "nat \<Rightarrow> js_value outcome"
  get_ebook_count :: "nat outcome"
  has_access :: "string \<Rightarrow> nat \<Rightarrow> bool outcome"
  get_author_ebooks :: "string \<Rightarrow> nat list option outcome"
  get_buyer_ebooks :: "string \<Rightarrow> nat list option outcome"
  is_author :: "nat \<Rightarrow> string \<Rightarrow> bool outcome"

text \<open>
  The requests a function issues, in the order it issues them: the read-only calls by
  the contract function they name, and the transaction request of \<open>registerEbook\<close> with
  its four arguments (title, description, content hash, price).
\<close>

datatype request =
    Get_ebook nat
  | Get_ebook_count
  | Has_access string nat
  | Get_author_ebooks string
  | Get_buyer_ebooks string
  | Is_author nat string
  | Register_ebook string string "8 word list" number

text \<open>Each read function returns its result and the requests it issued.\<close>

definition getEbook :: "contract \<Rightarrow> nat \<Rightarrow> js_value \<times> request list" where
  "getEbook c ebookId =
     ((case get_ebook c ebookId of Returns v \<Rightarrow> v | Throws \<Rightarrow> Null),
      [Get_ebook ebookId])"

definition getEbookCount :: "contract \<Rightarrow> nat \<times> request list" where
  "getEbookCount c =
     ((case get_ebook_count c of Returns count \<Rightarrow> count | Throws \<Rightarrow> 0),
      [Get_ebook_count])"

definition hasAccess :: "contract \<Rightarrow> string \<Rightarrow> nat \<Rightarrow> bool \<times> request list" where
  "hasAccess c buyerAddress ebookId =
     ((case has_access c buyerAddress ebookId of Returns v \<Rightarrow> v | Throws \<Rightarrow> False),
      [Has_access buyerAddress ebookId])"

text \<open>\<open>ids || []\<close>: an array is truthy, \<open>null\<close> and \<open>undefined\<close> are not.\<close>

definition getAuthorEbooks :: "contract \<Rightarrow> string \<Rightarrow> nat list \<times> request list" where
  "getAuthorEbooks c authorAddress =
     ((case get_author_ebooks c authorAddress of
         Returns ids \<Rightarrow> (case ids of Some xs \<Rightarrow> xs | None \<Rightarrow> [])
       | Throws \<Rightarrow> []),
      [Get_author_ebooks authorAddress])"

definition getBuyerEbooks :: "contract \<Rightarrow> string \<Rightarrow> nat list \<times> request list" where
  "getBuyerEbooks c buyerAddress =
     ((case get_buyer_ebooks c buyerAddress of
         Returns ids \<Rightarrow> (case ids of Some xs \<Rightarrow> xs | None \<Rightarrow> [])
       | Throws \<Rightarrow> []),
      [Get_buyer_ebooks buyerAddress])"

definition isAuthor :: "contract \<Rightarrow> nat \<Rightarrow> string \<Rightarrow> bool \<times> request list" where
  "isAuthor c ebookId userAddress =
     ((case is_author c ebookId userAddress of Returns v \<Rightarrow> v | Throws \<Rightarrow> False),
      [Is_author ebookId userAddress])"

section \<open>Listing all active ebooks (services/stacks.ts)\<close>

text \<open>
  The objects the pages display. Every field but the id holds whatever the expression
  of the source evaluates to, so it is a value of any type.
\<close>

record Ebook =
  ebook_id :: nat
  title :: js_value
  description :: js_value
  contentHash :: js_value
  price :: js_value
  author :: js_value
  createdAt :: js_value
  active :: js_value

text \<open>The object literal \<open>getAllEbooks\<close> pushes for listing \<open>i\<close>.\<close>

definition listed_ebook :: "nat \<Rightarrow> js_value \<Rightarrow> Ebook" where
  "listed_ebook i ebook =
     \<lparr> ebook_id = i,
       title = or_else (get_prop ebook ''title'') (StringV []),
       description = or_else (get_prop ebook ''description'') (StringV []),
       contentHash = or_else (get_prop ebook ''content-hash'') (StringV []),
       price = or_else (NumberV (Number (get_prop ebook ''price''))) (NumberV (Finite 0)),
       author = or_else (get_prop ebook ''author'') (StringV []),
       createdAt =
         NumberV (Number (or_else (get_prop ebook ''created-at'') (NumberV (Finite 0)))),
       active = get_prop ebook ''active'' \<rparr>"

text \<open>
  The loop \<open>for (let i = 1; i <= count; i++)\<close> of \<open>getAllEbooks\<close>, with the array
  \<open>ebooks\<close> and the requests issued so far as its state.
\<close>

function getAllEbooks_loop ::
  "contract \<Rightarrow> nat \<Rightarrow> nat \<Rightarrow> Ebook list \<Rightarrow> request list \<Rightarrow> Ebook list \<times> request list"
where
  "getAllEbooks_loop c count i ebooks reqs =
     (if i \<le> count then
        getAllEbooks_loop c count (i + 1)
          (if truthy (fst (getEbook c i)) then
             (if truthy (get_prop (fst (getEbook c i)) ''active'')
              then ebooks @ [listed_ebook i (fst (getEbook c i))]
              else ebooks)
           else ebooks)
          (reqs @ snd (getEbook c i))
      else (ebooks, reqs))"
  by pat_completeness auto
termination
  by (relation "measure (\<lambda>(c, count, i, ebooks, reqs). count + 1 - i)") auto

text \<open>
  \<open>getAllEbooks\<close>. Nothing in the body of its \<open>try\<close> throws: the two read functions
  catch their own errors, and the properties are read from a truthy value.
\<close>

definition getAllEbooks :: "contract \<Rightarrow> Ebook list \<times> request list" where
  "getAllEbooks c =
     (let count = fst (getEbookCount c)
      in getAllEbooks_loop c count 1 [] (snd (getEbookCount c)))"

section \<open>The My Books page (pages/my-books.tsx)\<close>

text \<open>
  The file holds two versions of the page one after the other; the model is the second
  one (from line 210 on), whose \<open>loadMyBooks\<close> scans every listing. The state of the
  page is modelled but for the debug text, which like the console output is diagnostic.
\<close>

record my_books =
  publishedEbooks :: "Ebook list"
  purchasedEbooks :: "Ebook list"
  isLoading :: bool
  walletConnected :: bool
  userAddress :: "string option"

text \<open>The object literal the page builds for listing \<open>i\<close>, in the scan and for a purchase.\<close>

definition my_ebook :: "nat \<Rightarrow> js_value \<Rightarrow> Ebook" where
  "my_ebook i ebook =
     \<lparr> ebook_id = i,
       title = or_else (get_prop ebook ''title'') (StringV []),
       description = or_else (get_prop ebook ''description'') (StringV []),
       contentHash =
         or_else (or_else (get_prop ebook ''content-hash'') (get_prop ebook ''contentHash''))
           (StringV []),
       price = or_else (NumberV (Number (get_prop ebook ''price''))) (NumberV (Finite 0)),
       author = or_else (get_prop ebook ''author'') (StringV []),
       createdAt =
         NumberV (Number (or_else
           (or_else (get_prop ebook ''created-at'') (get_prop ebook ''createdAt''))
           (NumberV (Finite 0)))),
       active = Boolean (\<not> strict_eq (get_prop ebook ''active'') (Boolean False)) \<rparr>"

text \<open>The scan \<open>for (let i = 1; i <= totalCount; i++)\<close> of \<open>loadMyBooks\<close>.\<close>

function loadMyBooks_scan ::
  "contract \<Rightarrow> string \<Rightarrow> nat \<Rightarrow> nat \<Rightarrow> Ebook list \<Rightarrow> request list
     \<Rightarrow> Ebook list \<times> request list"
where
  "loadMyBooks_scan c address totalCount i allAuthorEbooks reqs =
     (if i \<le> totalCount then
        loadMyBooks_scan c address totalCount (i + 1)
          (if truthy (fst (getEbook c i))
              \<and> strict_eq (get_prop (fst (getEbook c i)) ''author'') (StringV address)
           then allAuthorEbooks @ [my_ebook i (fst (getEbook c i))]
           else allAuthorEbooks)
          (reqs @ snd (getEbook c i))
      else (allAuthorEbooks, reqs))"
  by pat_completeness auto
termination
  by (relation "measure (\<lambda>(c, address, totalCount, i, acc, reqs). totalCount + 1 - i)") auto

text \<open>
  The purchases: \<open>buyerEbookIds.map(async (id) => ...)\<close> starts one fetch per id, in the
  order of the ids; each promise resolves to an object or to \<open>null\<close> (\<open>None\<close>), and
  \<open>filter(Boolean)\<close> keeps the objects.
\<close>

definition purchasedPromise :: "contract \<Rightarrow> nat \<Rightarrow> Ebook option" where
  "purchasedPromise c i =
     (if truthy (fst (getEbook c i)) then Some (my_ebook i (fst (getEbook c i))) else None)"

definition filter_Boolean :: "'a option list \<Rightarrow> 'a list" where
  "filter_Boolean xs = concat (map (\<lambda>x. case x of None \<Rightarrow> [] | Some y \<Rightarrow> [y]) xs)"

text \<open>
  \<open>loadMyBooks\<close>, from a page state and the address it is called with. With replies of
  the declared types nothing in the body of its \<open>try\<close> throws, so the \<open>catch\<close> block has
  no case here; \<open>finally\<close> clears the loading flag.
\<close>

definition loadMyBooks ::
  "contract \<Rightarrow> my_books \<Rightarrow> string option \<Rightarrow> my_books \<times> request list"
where
  "loadMyBooks c s address =
     (case address of
        None \<Rightarrow> (s\<lparr>isLoading := False\<rparr>, [])
      | Some a \<Rightarrow>
          if a = [] then (s\<lparr>isLoading := False\<rparr>, [])
          else
            (let totalCount = fst (getEbookCount c);
                 authorEbookIds = fst (getAuthorEbooks c a);
                 scan = loadMyBooks_scan c a totalCount 1 []
                          (snd (getEbookCount c) @ snd (getAuthorEbooks c a));
                 buyerEbookIds = fst (getBuyerEbooks c a);
                 purchased = filter_Boolean (map (purchasedPromise c) buyerEbookIds)
             in (s\<lparr>publishedEbooks := fst scan, purchasedEbooks := purchased,
                    isLoading := False\<rparr>,
                 snd scan @ snd (getBuyerEbooks c a)
                   @ concat (map (\<lambda>i. snd (getEbook c i)) buyerEbookIds))))"

text \<open>The effect the page runs when it mounts.\<close>

definition MyBooks_useEffect ::
  "browser \<Rightarrow> contract \<Rightarrow> my_books \<Rightarrow> my_books \<times> request list"
where
  "MyBooks_useEffect b c s =
     (if window_defined b then
        (let connected = isSignedIn b in
         if connected then
           loadMyBooks c (s\<lparr>walletConnected := connected, userAddress := getUserAddress b\<rparr>)
             (getUserAddress b)
         else (s\<lparr>walletConnected := connected, isLoading := False\<rparr>, []))
      else (s, []))"

section \<open>Publishing an ebook (services/stacks.ts, pages/upload.tsx)\<close>

text \<open>The two unit conversions of the service module.\<close>

definition stxToMicroStx :: "number \<Rightarrow> number" where
  "stxToMicroStx stx = Math_floor (num_times stx (Finite 1000000))"

definition microStxToStx :: "number \<Rightarrow> number" where
  "microStxToStx microStx = num_divide microStx (Finite 1000000)"

text \<open>
  \<open>new TextEncoder().encode(s)\<close>: the UTF-8 bytes of the string, one byte for a code
  unit below 128 and two for the others of the model.
\<close>

definition TextEncoder_encode :: "string \<Rightarrow> 8 word list" where
  "TextEncoder_encode s =
     concat (map (\<lambda>c. if (of_char c :: nat) < 128 then [of_nat (of_char c)]
                       else [of_nat (192 + of_char c div 64), of_nat (128 + of_char c mod 64)])
                 s)"

text \<open>
  What the wallet does with a transaction request: the user approves and \<open>onFinish\<close>
  runs with the wallet's data, the user rejects and \<open>onCancel\<close> runs, or neither
  callback ever runs.
\<close>

datatype wallet_answer = Finished js_value | Cancelled | Unanswered

text \<open>
  The platform functions the upload page calls: \<open>crypto.subtle.digest\<close>, by algorithm
  name and data, and the wallet library's \<open>openContractCall\<close>. \<open>Throws\<close> of the latter
  also stands for an argument constructor that throws before the request is made
  (\<open>uintCV\<close> on a price that is not an unsigned integer), so the requests recorded for
  \<open>registerEbook\<close> are the ones it builds.
\<close>

record platform =
  crypto_subtle_digest :: "string \<Rightarrow> 8 word list \<Rightarrow> 8 word list outcome"
  openContractCall :: "request \<Rightarrow> wallet_answer outcome"

text \<open>
  \<open>registerEbook\<close>: the request for the contract function \<open>register-ebook\<close> with the
  arguments \<open>stringUtf8CV(title)\<close>, \<open>stringUtf8CV(description)\<close>, \<open>bufferCV(contentHash)\<close>
  and \<open>uintCV(price)\<close>; the result is what the wallet does with it.
\<close>

definition registerEbook ::
  "platform \<Rightarrow> string \<Rightarrow> string \<Rightarrow> 8 word list \<Rightarrow> number
     \<Rightarrow> wallet_answer outcome \<times> request list"
where
  "registerEbook p title' description' contentHash' price' =
     (openContractCall p (Register_ebook title' description' contentHash' price'),
      [Register_ebook title' description' contentHash' price'])"

text \<open>
  The form fields and the state of the upload page. The selected file is its name and
  its bytes, \<open>None\<close> when no file is selected.
\<close>

record upload_form =
  form_title :: string
  form_description :: string
  form_price :: string
  form_file :: "(string \<times> 8 word list) option"
  form_ipfsCid :: string

record upload_page =
  upload_isLoading :: bool
  upload_error :: "string option"
  upload_txId :: js_value

text \<open>
  \<open>handleSubmit\<close>: the page state after the submission has run, callbacks included, and
  the requests it issued. \<open>!price\<close> holds of the empty string only. In \<open>onFinish\<close> the
  read of \<open>data.txId\<close> throws on \<open>null\<close> and \<open>undefined\<close>, outside the \<open>try\<close>, and the
  state stays as it was.
\<close>

definition handleSubmit ::
  "browser \<Rightarrow> platform \<Rightarrow> upload_form \<Rightarrow> upload_page \<Rightarrow> upload_page \<times> request list"
where
  "handleSubmit b p f s0 =
     (let s = s0\<lparr>upload_error := None, upload_txId := Null\<rparr> in
      if \<not> isSignedIn b then
        (s\<lparr>upload_error := Some ''Please connect your wallet first.''\<rparr>, [])
      else if trim (form_title f) = [] then
        (s\<lparr>upload_error := Some ''Title is required.''\<rparr>, [])
      else if trim (form_description f) = [] then
        (s\<lparr>upload_error := Some ''Description is required.''\<rparr>, [])
      else if form_price f = [] \<or> num_le (parseFloat (form_price f)) (Finite 0) then
        (s\<lparr>upload_error := Some ''Price must be greater than 0.''\<rparr>, [])
      else if trim (form_ipfsCid f) = [] then
        (s\<lparr>upload_error :=
             Some ''IPFS CID is required. Upload your ebook to IPFS first.''\<rparr>, [])
      else
        (case crypto_subtle_digest p ''SHA-256'' (TextEncoder_encode (form_ipfsCid f)) of
           Throws \<Rightarrow>
             (s\<lparr>upload_error := Some ''Failed to register ebook. Please try again.'',
                 upload_isLoading := False\<rparr>, [])
         | Returns contentHash' \<Rightarrow>
             (let priceInMicroStx = stxToMicroStx (parseFloat (form_price f));
                  call = registerEbook p (form_title f) (form_description f) contentHash'
                           priceInMicroStx
              in (case fst call of
                    Throws \<Rightarrow>
                      s\<lparr>upload_error := Some ''Failed to register ebook. Please try again.'',
                         upload_isLoading := False\<rparr>
                  | Returns (Finished data) \<Rightarrow>
                      if data = Null \<or> data = Undefined then s\<lparr>upload_isLoading := True\<rparr>
                      else s\<lparr>upload_txId := get_prop data ''txId'', upload_isLoading := False\<rparr>
                  | Returns Cancelled \<Rightarrow> s\<lparr>upload_isLoading := False\<rparr>
                  | Returns Unanswered \<Rightarrow> s\<lparr>upload_isLoading := True\<rparr>,
                  snd call))))"

section \<open>Example inputs\<close>

text \<open>
  A contract with three listings: the first is inactive and by \<open>SP1\<close>, the second is
  active and by \<open>SP2\<close>, the third is by \<open>SP1\<close> and has no \<open>active\<close> field. Its author
  index knows no listing of anybody; its buyer index says that everybody bought the
  third listing.
\<close>

definition example_contract :: contract where
  "example_contract =
     \<lparr> get_ebook = (\<lambda>i.
         if i = 1 then
           Returns (ObjectV [(''title'', StringV ''First''), (''author'', StringV ''SP1''),
                             (''price'', BigIntV 2500000), (''active'', Boolean False)])
         else if i = 2 then
           Returns (ObjectV [(''title'', StringV ''Second''), (''author'', StringV ''SP2''),
                             (''price'', BigIntV 1000000), (''active'', Boolean True)])
         else if i = 3 then
           Returns (ObjectV [(''title'', StringV ''Third''), (''author'', StringV ''SP1''),
                             (''price'', BigIntV 1)])
         else Throws),
       get_ebook_count = Returns 3,
       has_access = (\<lambda>buyer i. Returns (i = 3)),
       get_author_ebooks = (\<lambda>author'. Returns (Some [])),
       get_buyer_ebooks = (\<lambda>buyer. Returns (Some [3])),
       is_author = (\<lambda>i address. Throws) \<rparr>"

text \<open>A browser in which \<open>SP1\<close> is signed in and the network variable is not set.\<close>

definition example_browser :: browser where
  "example_browser =
     \<lparr> window_defined = True, isUserSignedIn = True,
       stxAddress_mainnet = ''SP1'', stxAddress_testnet = ''ST1'',
       NEXT_PUBLIC_NETWORK = None \<rparr>"

text \<open>
  A platform whose digest is a stand-in (the first 32 bytes of the data, padded with
  zeros) and whose wallet never answers.
\<close>

definition example_platform :: platform where
  "example_platform =
     \<lparr> crypto_subtle_digest = (\<lambda>algorithm data. Returns (take 32 (data @ replicate 32 0))),
       openContractCall = (\<lambda>r. Returns Unanswered) \<rparr>"

definition example_form :: upload_form where
  "example_form =
     \<lparr> form_title = ''Book'', form_description = ''Text'', form_price = ''2.5'',
       form_file = None, form_ipfsCid = ''Qm'' \<rparr>"

definition example_page :: upload_page where
  "example_page = \<lparr> upload_isLoading = False, upload_error = None, upload_txId = Null \<rparr>"

definition example_my_books :: my_books where
  "example_my_books =
     \<lparr> publishedEbooks = [], purchasedEbooks = [], isLoading = True,
       walletConnected = False, userAddress = None \<rparr>"





text \<open>A contract none of whose read-only functions can be reached.\<close>

definition unreachable_contract :: contract where
  "unreachable_contract =
     \<lparr> get_ebook = (\<lambda>i. Throws),
       get_ebook_count = Throws,
       has_access = (\<lambda>buyer i. Throws),
       get_author_ebooks = (\<lambda>author'. Throws),
       get_buyer_ebooks = (\<lambda>buyer. Throws),
       is_author = (\<lambda>i address. Throws) \<rparr>"

section \<open>Rounding to binary64\<close>

lemma pow2_pos: "0 < pow2 e"
  by (simp add: pow2_def)

lemma pow2_Suc: "pow2 (e + 1) = 2 * pow2 e"
proof (cases "0 \<le> e")
  case True
  then show ?thesis by (simp add: pow2_def nat_add_distrib)
next
  case False
  then have "nat (- e) = Suc (nat (- (e + 1)))" by simp
  with False show ?thesis by (simp add: pow2_def)
qed

lemma pow2_0: "pow2 0 = 1"
  by (simp add: pow2_def)

lemma log2_up_spec:
  "1 \<le> a \<Longrightarrow> 0 \<le> log2_up a \<and> pow2 (log2_up a) \<le> a \<and> a < pow2 (log2_up a + 1)"
proof (induction a rule: log2_up.induct)
  case (1 a)
  show ?case
  proof (cases "a < 2")
    case True
    with "1.prems" show ?thesis
      by (subst (1 2 3) log2_up.simps) (simp add: pow2_def)
  next
    case False
    then have "1 \<le> a / 2" by simp
    from "1.IH" [OF False this] have ih: "0 \<le> log2_up (a / 2)"
      "pow2 (log2_up (a / 2)) \<le> a / 2" "a / 2 < pow2 (log2_up (a / 2) + 1)" by simp_all
    have eq: "log2_up a = log2_up (a / 2) + 1"
      using False by (subst log2_up.simps) simp
    have "pow2 (log2_up (a / 2) + 1) \<le> a"
      using ih(2) by (simp add: pow2_Suc)
    moreover have "a < pow2 (log2_up (a / 2) + 1 + 1)"
      using ih(3) by (subst pow2_Suc) simp
    ultimately show ?thesis using ih(1) by (simp only: eq) simp
  qed
qed

lemma log2_down_spec:
  "0 < a \<Longrightarrow> a < 1 \<Longrightarrow> pow2 (log2_down a) \<le> a \<and> a < pow2 (log2_down a + 1)"
proof (induction a rule: log2_down.induct)
  case (1 a)
  have n: "\<not> (1 \<le> a \<or> a \<le> 0)" using "1.prems" by simp
  show ?case
  proof (cases "2 * a < 1")
    case True
    from "1.IH" [OF n _ True] "1.prems" have
      "pow2 (log2_down (2 * a)) \<le> 2 * a \<and> 2 * a < pow2 (log2_down (2 * a) + 1)" by simp
    moreover have "pow2 (log2_down (2 * a)) = 2 * pow2 (log2_down (2 * a) - 1)"
      using pow2_Suc [of "log2_down (2 * a) - 1"] by simp
    ultimately show ?thesis using n
      by (subst (1 2) log2_down.simps) (simp add: pow2_Suc)
  next
    case False
    then have "log2_down (2 * a) = 0" by (subst log2_down.simps) simp
    moreover have "pow2 (- 1) = 1 / 2" by (simp add: pow2_def)
    ultimately show ?thesis using n False "1.prems"
      by (subst (1 2) log2_down.simps) (simp add: pow2_0)
  qed
qed

lemma ilog2_spec: "0 < a \<Longrightarrow> pow2 (ilog2 a) \<le> a \<and> a < pow2 (ilog2 a + 1)"
  using log2_up_spec [of a] log2_down_spec [of a] by (simp add: ilog2_def)

lemma roundTiesToEven_error: "\<bar>of_int (roundTiesToEven q) - q\<bar> \<le> 1 / 2"
proof -
  have "of_int \<lfloor>q\<rfloor> \<le> q" "q < of_int \<lfloor>q\<rfloor> + 1" by linarith+
  then show ?thesis by (auto simp add: roundTiesToEven_def)
qed


lemma pow2_add_nat: "pow2 (e + int n) = 2 ^ n * pow2 e"
proof (induction n)
  case 0
  show ?case by simp
next
  case (Suc n)
  have "e + int (Suc n) = (e + int n) + 1" by simp
  then have "pow2 (e + int (Suc n)) = pow2 ((e + int n) + 1)" by (rule arg_cong)
  also have "\<dots> = 2 * pow2 (e + int n)" by (rule pow2_Suc)
  finally show ?case by (simp add: Suc.IH)
qed

lemma roundTiesToEven_nonneg: "0 \<le> q \<Longrightarrow> 0 \<le> roundTiesToEven q"
  by (simp add: roundTiesToEven_def)

lemma scaled_rounding_error:
  assumes "0 \<le> a"
  shows "\<bar>of_int (roundTiesToEven (a / pow2 e)) * pow2 e - a\<bar> \<le> pow2 e / 2"
    and "0 \<le> of_int (roundTiesToEven (a / pow2 e)) * pow2 e"
proof -
  have p: "0 < pow2 e" by (rule pow2_pos)
  have "\<bar>of_int (roundTiesToEven (a / pow2 e)) - a / pow2 e\<bar> \<le> 1 / 2"
    by (rule roundTiesToEven_error)
  then have "\<bar>of_int (roundTiesToEven (a / pow2 e)) - a / pow2 e\<bar> * pow2 e \<le> 1 / 2 * pow2 e"
    using p by (simp only: mult_le_cancel_right_pos)
  moreover have "\<bar>of_int (roundTiesToEven (a / pow2 e)) - a / pow2 e\<bar> * pow2 e
      = \<bar>of_int (roundTiesToEven (a / pow2 e)) * pow2 e - a\<bar>"
  proof -
    have "\<bar>of_int (roundTiesToEven (a / pow2 e)) - a / pow2 e\<bar> * pow2 e
        = \<bar>(of_int (roundTiesToEven (a / pow2 e)) - a / pow2 e) * pow2 e\<bar>"
      using p by (simp add: abs_mult)
    also have "(of_int (roundTiesToEven (a / pow2 e)) - a / pow2 e) * pow2 e
        = of_int (roundTiesToEven (a / pow2 e)) * pow2 e - a"
      using p by (simp add: left_diff_distrib)
    finally show ?thesis .
  qed
  ultimately show "\<bar>of_int (roundTiesToEven (a / pow2 e)) * pow2 e - a\<bar> \<le> pow2 e / 2"
    by simp
  have "0 \<le> a / pow2 e" using assms p by simp
  then have "0 \<le> roundTiesToEven (a / pow2 e)" by (rule roundTiesToEven_nonneg)
  then show "0 \<le> of_int (roundTiesToEven (a / pow2 e)) * pow2 e"
    using p by simp
qed

lemma binary64_normal:
  assumes lo: "pow2 (- 1022) \<le> a" and hi: "a + a / 2 ^ 53 < pow2 1024"
  shows "\<exists>v. binary64 a = Finite v \<and> 0 \<le> v \<and> \<bar>v - a\<bar> \<le> a / 2 ^ 53"
proof -
  have pos: "0 < a" using lo pow2_pos [of "- 1022"] by linarith
  define e where "e = ilog2 a - 52"
  define v where "v = of_int (roundTiesToEven (a / pow2 e)) * pow2 e"
  have "pow2 (ilog2 a) = 2 ^ 52 * pow2 e"
    using pow2_add_nat [of e 52] by (simp add: e_def)
  moreover have "pow2 (ilog2 a) \<le> a" using ilog2_spec [OF pos] by simp
  ultimately have ulp: "pow2 e / 2 \<le> a / 2 ^ 53" by simp
  have err: "\<bar>v - a\<bar> \<le> pow2 e / 2" and nonneg: "0 \<le> v"
    using scaled_rounding_error [of a e] pos by (simp_all add: v_def)
  from err ulp have close: "\<bar>v - a\<bar> \<le> a / 2 ^ 53" by linarith
  with hi have "\<not> pow2 1024 \<le> v" by linarith
  then have "binary64 a = Finite v"
    using pos lo by (simp add: binary64_def Let_def e_def v_def)
  with nonneg close show ?thesis by blast
qed

lemma binary64_subnormal:
  assumes "0 \<le> a" and "a < pow2 (- 1022)"
  shows "\<exists>v. binary64 a = Finite v \<and> 0 \<le> v \<and> \<bar>v - a\<bar> \<le> pow2 (- 1074) / 2"
proof -
  define v where "v = of_int (roundTiesToEven (a / pow2 (- 1074))) * pow2 (- 1074)"
  have err: "\<bar>v - a\<bar> \<le> pow2 (- 1074) / 2" and nonneg: "0 \<le> v"
    using scaled_rounding_error [of a "- 1074"] assms(1) by (simp_all add: v_def)
  have "pow2 (- 1074) / 2 < 1" "pow2 (- 1022) < 1" "(2::rat) \<le> pow2 1024"
    by (simp_all add: pow2_def)
  with err assms(2) have "\<not> pow2 1024 \<le> v" by linarith
  then have "binary64 a = Finite v"
    using assms by (simp add: binary64_def Let_def v_def)
  with nonneg err show ?thesis by blast
qed


lemma pow2_mono: "e \<le> e' \<Longrightarrow> pow2 e \<le> pow2 e'"
proof -
  assume "e \<le> e'"
  then have "e' = e + int (nat (e' - e))" by simp
  then have "pow2 e' = 2 ^ nat (e' - e) * pow2 e"
    using pow2_add_nat [of e "nat (e' - e)"] by simp
  moreover have "(1::rat) \<le> 2 ^ nat (e' - e)" by simp
  ultimately show ?thesis
    using pow2_pos [of e] by (simp add: mult_le_cancel_right1)
qed

lemma roundTiesToEven_lower: "\<lfloor>q\<rfloor> \<le> roundTiesToEven q"
  by (simp add: roundTiesToEven_def)

text \<open>A number of \<open>2^1024\<close> or more rounds to the positive infinity.\<close>

lemma binary64_overflow:
  assumes "pow2 1024 \<le> a"
  shows "binary64 a = PosInfinity"
proof -
  have big: "pow2 (- 1022) \<le> pow2 1024" by (rule pow2_mono) simp
  have pos: "0 < a" using assms pow2_pos [of 1024] by linarith
  define e where "e = ilog2 a - 52"
  have spec: "pow2 (ilog2 a) \<le> a" "a < pow2 (ilog2 a + 1)"
    using ilog2_spec [OF pos] by simp_all
  have "1024 \<le> ilog2 a"
  proof (rule ccontr)
    assume "\<not> 1024 \<le> ilog2 a"
    then have "pow2 (ilog2 a + 1) \<le> pow2 1024" by (intro pow2_mono) simp
    with spec(2) assms show False by linarith
  qed
  then have top: "pow2 1024 \<le> pow2 (ilog2 a)" by (rule pow2_mono)
  have scale: "pow2 (ilog2 a) = 2 ^ 52 * pow2 e"
    using pow2_add_nat [of e 52] by (simp add: e_def)
  have p: "0 < pow2 e" by (rule pow2_pos)
  have "2 ^ 52 * pow2 e \<le> a" using spec(1) scale by simp
  then have "(2::rat) ^ 52 \<le> a / pow2 e" using p by (simp add: pos_le_divide_eq)
  then have "(2::int) ^ 52 \<le> \<lfloor>a / pow2 e\<rfloor>" by (simp add: le_floor_iff)
  with roundTiesToEven_lower [of "a / pow2 e"]
  have "(2::int) ^ 52 \<le> roundTiesToEven (a / pow2 e)" by linarith
  then have "(2::rat) ^ 52 \<le> of_int (roundTiesToEven (a / pow2 e))"
    by (metis of_int_le_iff of_int_numeral of_int_power)
  then have "2 ^ 52 * pow2 e \<le> of_int (roundTiesToEven (a / pow2 e)) * pow2 e"
    using p by (simp only: mult_le_cancel_right_pos)
  with scale top have "pow2 1024 \<le> of_int (roundTiesToEven (a / pow2 e)) * pow2 e"
    by linarith
  moreover have "\<not> a < pow2 (- 1022)" using assms big by linarith
  ultimately show ?thesis
    using pos by (simp add: binary64_def Let_def e_def)
qed

lemma binary64_0: "binary64 0 = Finite 0"
  using pow2_pos [of "- 1022"] pow2_pos [of 1024]
  by (simp add: binary64_def Let_def roundTiesToEven_def)

lemma pow2_consts:
  "pow2 (- 1022) < 1 / 1000000" "pow2 (- 1074) / 2 < 1 / 2"
  "(2::rat) ^ 1023 + 2 ^ 1023 / 2 < pow2 1024" "pow2 (- 1022) < 1 / 2"
  by (simp_all add: pow2_def)

lemma roundtrip_small:
  assumes x: "0 < x" and p: "0 \<le> p" "p < 1" and b: "binary64 (x * 1000000) = Finite p"
  shows "microStxToStx (stxToMicroStx (Finite x)) = Finite 0"
proof -
  have "\<lfloor>p\<rfloor> = 0" using p by (simp add: floor_eq_iff)
  then show ?thesis
    by (simp add: stxToMicroStx_def microStxToStx_def b binary64_0)
qed

text \<open>
  C1, as the source computes it. For a positive \<open>x\<close> whose product with 1000000 is at
  most \<open>2^1023\<close>, the round trip \<open>microStxToStx(stxToMicroStx(x))\<close> is a finite number
  \<open>r\<close>, and \<open>x - r\<close> lies between \<open>-x/2^51\<close> and \<open>1/1000000 + x/2^51\<close>: the floor's
  error of less than one smallest unit, and on either side the relative error of the two
  rounded operations.
\<close>

theorem roundtrip_bounds:
  "0 < x \<and> x * 1000000 \<le> 2 ^ 1023
   \<longrightarrow> (\<exists>r. microStxToStx (stxToMicroStx (Finite x)) = Finite r
          \<and> - (x / 2 ^ 51) \<le> x - r \<and> x - r < 1 / 1000000 + x / 2 ^ 51)"
proof (intro impI)
  assume h: "0 < x \<and> x * 1000000 \<le> 2 ^ 1023"
  then have x: "0 < x" by simp
  define y where "y = x * 1000000"
  have yx: "y = 1000000 * x" by (simp add: y_def)
  have ymax: "y \<le> 2 ^ 1023" using h by (simp add: y_def)
  have goal51: "- (x / 2 ^ 51) \<le> x - r \<and> x - r < 1 / 1000000 + x / 2 ^ 51"
    if "- (x / 2251799813685248) \<le> x - r" "x - r < 1 / 1000000 + x / 2251799813685248" for r
    using that by simp
  show "\<exists>r. microStxToStx (stxToMicroStx (Finite x)) = Finite r
          \<and> - (x / 2 ^ 51) \<le> x - r \<and> x - r < 1 / 1000000 + x / 2 ^ 51"
  proof (cases "y < pow2 (- 1022)")
    case True
    with x obtain p where p: "binary64 y = Finite p" "0 \<le> p" "\<bar>p - y\<bar> \<le> pow2 (- 1074) / 2"
      using binary64_subnormal [of y] by (auto simp add: y_def)
    from p True pow2_consts have "p < 1" by linarith
    with x p have "microStxToStx (stxToMicroStx (Finite x)) = Finite 0"
      by (intro roundtrip_small [of x p]) (simp_all add: y_def)
    moreover have "x < 1 / 1000000" using True pow2_consts yx by linarith
    ultimately show ?thesis using x goal51 [of 0] by (intro exI [of _ 0]) simp
  next
    case False
    have "y / 2 ^ 53 \<le> y / 2" using x by (simp add: y_def field_simps)
    with ymax pow2_consts have "y + y / 2 ^ 53 < pow2 1024" by linarith
    with False obtain p where p: "binary64 y = Finite p" "0 \<le> p" "\<bar>p - y\<bar> \<le> y / 2 ^ 53"
      using binary64_normal [of y] by auto
    from p(3) have "\<bar>p - y\<bar> \<le> y / 9007199254740992" by simp
    then have py: "p - y \<le> y / 9007199254740992" "y - p \<le> y / 9007199254740992"
      by linarith+
    define m where "m = \<lfloor>p\<rfloor>"
    have m: "of_int m \<le> p" "p < of_int m + 1" "0 \<le> m"
      using p(2) unfolding m_def by linarith+
    have micro: "stxToMicroStx (Finite x) = Finite (of_int m)"
      using p(1) by (simp add: stxToMicroStx_def m_def y_def)
    show ?thesis
    proof (cases "m = 0")
      case True
      with m have "p < 1" by simp
      with x p have "microStxToStx (stxToMicroStx (Finite x)) = Finite 0"
        by (intro roundtrip_small [of x p]) (simp_all add: y_def)
      moreover have "x - 0 < 1 / 1000000 + x / 2251799813685248"
        using py \<open>p < 1\<close> yx x by linarith
      moreover have "- (x / 2251799813685248) \<le> x - 0" using x by simp
      ultimately show ?thesis using goal51 [of 0] by blast
    next
      case False
      with m have m1: "(1::rat) \<le> of_int m" by simp
      define z :: rat where "z = of_int m / 1000000"
      have zm: "of_int m = 1000000 * z" by (simp add: z_def)
      have zlo: "pow2 (- 1022) \<le> z" using m1 pow2_consts zm by linarith
      have zx: "z \<le> x + x / 9007199254740992"
        using m(1) py zm yx by linarith
      have "z / 2 ^ 53 \<le> z" using m1 by (simp add: z_def field_simps)
      then have "z + z / 2 ^ 53 < pow2 1024"
        using zx yx ymax x pow2_consts by linarith
      with zlo obtain r where r: "binary64 z = Finite r" "\<bar>r - z\<bar> \<le> z / 2 ^ 53"
        using binary64_normal [of z] by auto
      from r(2) have "\<bar>r - z\<bar> \<le> z / 9007199254740992" by simp
      then have rz: "r - z \<le> z / 9007199254740992" "z - r \<le> z / 9007199254740992"
        by linarith+
      have trip: "microStxToStx (stxToMicroStx (Finite x)) = Finite r"
        using r(1) by (simp add: micro microStxToStx_def z_def)
      have xz: "x - z < x / 9007199254740992 + 1 / 1000000"
        using m(2) py zm yx by linarith
      have "- (x / 2251799813685248) \<le> x - r"
        using rz zx x by linarith
      moreover have "x - r < 1 / 1000000 + x / 2251799813685248"
        using rz zx xz x by linarith
      ultimately show ?thesis using trip goal51 [of r] by blast
    qed
  qed
qed

theorem roundtrip_bounds_witness:
  "(0::rat) < 5 / 2 \<and> (5 / 2 :: rat) * 1000000 \<le> 2 ^ 1023
   \<and> (\<exists>r. microStxToStx (stxToMicroStx (Finite (5 / 2))) = Finite r
          \<and> - ((5 / 2) / 2 ^ 51) \<le> 5 / 2 - r \<and> 5 / 2 - r < 1 / 1000000 + (5 / 2) / 2 ^ 51)"
proof -
  have h: "(0::rat) < 5 / 2 \<and> (5 / 2 :: rat) * 1000000 \<le> 2 ^ 1023" by simp
  from roundtrip_bounds [of "5 / 2"] h show ?thesis by blast
qed

text \<open>Evaluating the rounding and the parsers on numerals.\<close>

lemma floor_numeral_div:
  "\<lfloor>numeral a / numeral b :: rat\<rfloor> = numeral a div numeral b"
  "\<lfloor>1 / numeral b :: rat\<rfloor> = 1 div numeral b"
  using floor_divide_of_int_eq [of "numeral a" "numeral b", where ?'a = rat]
    floor_divide_of_int_eq [of 1 "numeral b", where ?'a = rat]
  by simp_all

lemmas binary64_eval =
  binary64_def Let_def ilog2_def log2_up.simps log2_down.simps pow2_def roundTiesToEven_def
  floor_numeral_div

lemmas parse_defs =
  parseFloat_def strDecimalLiteral_def strUnsignedDecimalLiteral_def exponentPart_def
  trimStart_def isWhiteSpace_def isDecimalDigit_def digitsValue_def decimalDigit_def scale10_def

text \<open>
  The literals of the examples below. \<open>0.1\<close> is the number \<open>0x1.999999999999ap-4\<close>. A
  literal is parsed first and its decimal value rounded after, so that the rounding is
  unfolded on numerals only.
\<close>

lemma parseFloat_examples:
  "parseFloat ''0.1'' = Finite (3602879701896397 / 36028797018963968)"
  "parseFloat ''2.5'' = Finite (5 / 2)"
  "parseFloat ''0'' = Finite 0"
  "parseFloat ''-2.5'' = Finite (- (5 / 2))"
  "parseFloat ''0.0000005'' = Finite (4722366482869645 / 9444732965739290427392)"
  "parseFloat ''0.003919'' = Finite (4518299376554233 / 1152921504606846976)"
  by (simp add: parse_defs, simp add: binary64_eval)+

text \<open>
  Neither bound of the interval from 0 to \<open>1/1000000\<close> holds of the round trip itself.
  The literal \<open>0.003919\<close> is the number \<open>4518299376554233 / 2^60\<close>, which comes back as
  \<open>2258573227524813 / 2^59\<close>, a full unit and more below; the number
  \<open>368934881474191 / 2^66\<close>, the one just below \<open>0.000005\<close>, comes back as
  \<open>5902958103587057 / 2^70\<close>, which is above it. And the product of \<open>2^1020\<close> overflows:
  the round trip is the positive infinity.
\<close>

theorem roundtrip_counterexample:
  "parseFloat ''0.003919'' = Finite (4518299376554233 / 1152921504606846976)
   \<and> microStxToStx (stxToMicroStx (Finite (4518299376554233 / 1152921504606846976)))
     = Finite (2258573227524813 / 576460752303423488)
   \<and> \<not> (4518299376554233 / 1152921504606846976 - 2258573227524813 / 576460752303423488
          < (1 / 1000000 :: rat))
   \<and> microStxToStx (stxToMicroStx (Finite (368934881474191 / 73786976294838206464)))
     = Finite (5902958103587057 / 1180591620717411303424)
   \<and> \<not> ((0::rat) \<le> 368934881474191 / 73786976294838206464
                    - 5902958103587057 / 1180591620717411303424)
   \<and> microStxToStx (stxToMicroStx (Finite (2 ^ 1020))) = PosInfinity"
proof -
  have "pow2 1024 \<le> 2 ^ 1020 * 1000000" by (simp add: pow2_def)
  then have "binary64 (2 ^ 1020 * 1000000) = PosInfinity" by (rule binary64_overflow)
  then have overflow: "microStxToStx (stxToMicroStx (Finite (2 ^ 1020))) = PosInfinity"
    by (simp add: stxToMicroStx_def microStxToStx_def)
  have literal: "parseFloat ''0.003919'' = Finite (4518299376554233 / 1152921504606846976)"
    by (simp add: parseFloat_examples)
  have below: "microStxToStx (stxToMicroStx (Finite (4518299376554233 / 1152921504606846976)))
     = Finite (2258573227524813 / 576460752303423488)"
    by (simp add: stxToMicroStx_def microStxToStx_def binary64_eval)
  have above: "microStxToStx (stxToMicroStx (Finite (368934881474191 / 73786976294838206464)))
     = Finite (5902958103587057 / 1180591620717411303424)"
    by (simp add: stxToMicroStx_def microStxToStx_def binary64_eval)
  have differences:
    "\<not> (4518299376554233 / 1152921504606846976 - 2258573227524813 / 576460752303423488
          < (1 / 1000000 :: rat))"
    "\<not> ((0::rat) \<le> 368934881474191 / 73786976294838206464
                    - 5902958103587057 / 1180591620717411303424)"
    by simp_all
  from literal below above differences overflow show ?thesis by blast
qed

section \<open>The loops in closed form\<close>

declare getAllEbooks_loop.simps [simp del]
declare loadMyBooks_scan.simps [simp del]

lemma snd_getEbook: "snd (getEbook c i) = [Get_ebook i]"
  by (simp add: getEbook_def)

lemma snd_getEbookCount: "snd (getEbookCount c) = [Get_ebook_count]"
  by (simp add: getEbookCount_def)

text \<open>
  The loop of \<open>getAllEbooks\<close> from counter \<open>i\<close>: it appends the active listings among
  \<open>i, ..., count\<close> and one request per id, by induction along the loop's own recursion.
\<close>

lemma getAllEbooks_loop_eq:
  "getAllEbooks_loop c count i ebooks reqs =
     (ebooks @ map (\<lambda>j. listed_ebook j (fst (getEbook c j)))
        (filter (\<lambda>j. truthy (fst (getEbook c j))
                   \<and> truthy (get_prop (fst (getEbook c j)) ''active''))
           [i..<Suc count]),
      reqs @ map Get_ebook [i..<Suc count])"
proof (induction c count i ebooks reqs rule: getAllEbooks_loop.induct)
  case (1 c count i ebooks reqs)
  show ?case
  proof (cases "i \<le> count")
    case True
    then have split: "[i..<Suc count] = i # [Suc i..<Suc count]"
      by (simp add: upt_conv_Cons)
    show ?thesis
      apply (subst getAllEbooks_loop.simps)
      apply (simp only: True if_True "1.IH" [OF True])
      apply (simp add: split snd_getEbook del: upt_Suc)
      done
  next
    case False
    then show ?thesis
      by (subst getAllEbooks_loop.simps) (simp del: upt_Suc)
  qed
qed

lemma getAllEbooks_eq:
  "getAllEbooks c =
     (map (\<lambda>j. listed_ebook j (fst (getEbook c j)))
        (filter (\<lambda>j. truthy (fst (getEbook c j))
                   \<and> truthy (get_prop (fst (getEbook c j)) ''active''))
           [1..<Suc (fst (getEbookCount c))]),
      Get_ebook_count # map Get_ebook [1..<Suc (fst (getEbookCount c))])"
  by (simp add: getAllEbooks_def Let_def getAllEbooks_loop_eq snd_getEbookCount del: upt_Suc)

section \<open>Listing all active ebooks: the fetches\<close>

text \<open>
  C4. \<open>getAllEbooks\<close> first requests the count, then requests the listings 1 to \<open>n\<close>
  one after the other, where \<open>n\<close> is the count \<open>getEbookCount\<close> gave: exactly \<open>n\<close>
  requests besides the count's. Its result is the fetched listings that are truthy and
  have a truthy \<open>active\<close> field, in the order of their ids. When the count endpoint
  answers 0, the result is empty and the count's request is the only one.
\<close>

theorem getAllEbooks_fetches:
  "snd (getAllEbooks c)
     = Get_ebook_count # map Get_ebook [1..<Suc (fst (getEbookCount c))]
   \<and> length (filter (\<lambda>r. r \<noteq> Get_ebook_count) (snd (getAllEbooks c)))
     = fst (getEbookCount c)
   \<and> fst (getAllEbooks c)
     = map (\<lambda>i. listed_ebook i (fst (getEbook c i)))
         (filter (\<lambda>i. truthy (fst (getEbook c i))
                    \<and> truthy (get_prop (fst (getEbook c i)) ''active''))
            [1..<Suc (fst (getEbookCount c))])
   \<and> (get_ebook_count c = Returns 0 \<longrightarrow> getAllEbooks c = ([], [Get_ebook_count]))"
  by (simp add: getAllEbooks_eq getEbookCount_def filter_map comp_def del: upt_Suc)

theorem getAllEbooks_fetches_witness:
  "get_ebook_count
     \<lparr> get_ebook = (\<lambda>i. Returns (ObjectV [(''active'', Boolean True)])),
       get_ebook_count = Returns 0,
       has_access = (\<lambda>a i. Throws),
       get_author_ebooks = (\<lambda>a. Throws),
       get_buyer_ebooks = (\<lambda>a. Throws),
       is_author = (\<lambda>i a. Throws) \<rparr> = Returns 0
   \<and> getAllEbooks
     \<lparr> get_ebook = (\<lambda>i. Returns (ObjectV [(''active'', Boolean True)])),
       get_ebook_count = Returns 0,
       has_access = (\<lambda>a i. Throws),
       get_author_ebooks = (\<lambda>a. Throws),
       get_buyer_ebooks = (\<lambda>a. Throws),
       is_author = (\<lambda>i a. Throws) \<rparr> = ([], [Get_ebook_count])"
  using getAllEbooks_fetches
    [of "\<lparr> get_ebook = (\<lambda>i. Returns (ObjectV [(''active'', Boolean True)])),
           get_ebook_count = Returns 0,
           has_access = (\<lambda>a i. Throws),
           get_author_ebooks = (\<lambda>a. Throws),
           get_buyer_ebooks = (\<lambda>a. Throws),
           is_author = (\<lambda>i a. Throws) \<rparr>"]
  by simp

section \<open>The My Books page: what the lists hold\<close>

text \<open>The scan of \<open>loadMyBooks\<close> from counter \<open>i\<close>, by induction along its recursion.\<close>

lemma loadMyBooks_scan_eq:
  "loadMyBooks_scan c a n i found reqs =
     (found @ map (\<lambda>j. my_ebook j (fst (getEbook c j)))
        (filter (\<lambda>j. truthy (fst (getEbook c j))
                   \<and> strict_eq (get_prop (fst (getEbook c j)) ''author'') (StringV a))
           [i..<Suc n]),
      reqs @ map Get_ebook [i..<Suc n])"
proof (induction c a n i found reqs rule: loadMyBooks_scan.induct)
  case (1 c a n i found reqs)
  show ?case
  proof (cases "i \<le> n")
    case True
    then have split: "[i..<Suc n] = i # [Suc i..<Suc n]"
      by (simp add: upt_conv_Cons)
    show ?thesis
      apply (subst loadMyBooks_scan.simps)
      apply (simp only: True if_True "1.IH" [OF True])
      apply (simp add: split snd_getEbook del: upt_Suc)
      done
  next
    case False
    then show ?thesis
      by (subst loadMyBooks_scan.simps) (simp del: upt_Suc)
  qed
qed

lemma purchased_eq:
  "filter_Boolean (map (purchasedPromise c) ids) =
     map (\<lambda>i. my_ebook i (fst (getEbook c i))) (filter (\<lambda>i. truthy (fst (getEbook c i))) ids)"
  by (induction ids) (simp_all add: filter_Boolean_def purchasedPromise_def)

lemma loadMyBooks_eq:
  assumes "a \<noteq> []"
  shows "loadMyBooks c s (Some a) =
     (s\<lparr>publishedEbooks :=
           map (\<lambda>i. my_ebook i (fst (getEbook c i)))
             (filter (\<lambda>i. truthy (fst (getEbook c i))
                        \<and> strict_eq (get_prop (fst (getEbook c i)) ''author'') (StringV a))
                [1..<Suc (fst (getEbookCount c))]),
         purchasedEbooks :=
           map (\<lambda>i. my_ebook i (fst (getEbook c i)))
             (filter (\<lambda>i. truthy (fst (getEbook c i))) (fst (getBuyerEbooks c a))),
         isLoading := False\<rparr>,
      Get_ebook_count # Get_author_ebooks a # map Get_ebook [1..<Suc (fst (getEbookCount c))]
        @ Get_buyer_ebooks a # map Get_ebook (fst (getBuyerEbooks c a)))"
  using assms
  by (simp add: loadMyBooks_def Let_def loadMyBooks_scan_eq purchased_eq snd_getEbookCount
        snd_getEbook getAuthorEbooks_def getBuyerEbooks_def del: upt_Suc)

lemma active_False_truthy:
  "get_prop v ''active'' = Boolean False \<Longrightarrow> truthy v"
  by (cases v) simp_all

text \<open>
  A listing whose fields are primitives, as \<open>interface Ebook\<close> declares them. Let the
  listing fetched for an id \<open>i\<close> between 1 and the count have the \<open>active\<close> field
  \<open>false\<close>. Then no entry of the result of \<open>getAllEbooks\<close> has the id \<open>i\<close>; and when the
  listing's \<open>author\<close> field is strictly equal to the (non-empty) address \<open>loadMyBooks\<close>
  runs with, the published list of My Books holds the entry built from it, with id \<open>i\<close>
  and \<open>active\<close> false.
\<close>

lemma primitive_inactive_listing:
  "1 \<le> i \<and> i \<le> fst (getEbookCount c)
     \<and> get_prop (fst (getEbook c i)) ''active'' = Boolean False
   \<longrightarrow> i \<notin> ebook_id ` set (fst (getAllEbooks c))
       \<and> (address \<noteq> []
            \<and> strict_eq (get_prop (fst (getEbook c i)) ''author'') (StringV address)
          \<longrightarrow> my_ebook i (fst (getEbook c i))
                \<in> set (publishedEbooks (fst (loadMyBooks c s (Some address))))
              \<and> ebook_id (my_ebook i (fst (getEbook c i))) = i
              \<and> active (my_ebook i (fst (getEbook c i))) = Boolean False)"
proof (intro impI conjI)
  assume h: "1 \<le> i \<and> i \<le> fst (getEbookCount c)
     \<and> get_prop (fst (getEbook c i)) ''active'' = Boolean False"
  show "i \<notin> ebook_id ` set (fst (getAllEbooks c))"
    using h by (auto simp add: getAllEbooks_eq listed_ebook_def simp del: upt_Suc)
  assume a: "address \<noteq> []
            \<and> strict_eq (get_prop (fst (getEbook c i)) ''author'') (StringV address)"
  have obj: "truthy (fst (getEbook c i))"
    using h by (simp add: active_False_truthy)
  show "my_ebook i (fst (getEbook c i))
                \<in> set (publishedEbooks (fst (loadMyBooks c s (Some address))))"
    using h a obj by (simp add: loadMyBooks_eq del: upt_Suc)
  show "ebook_id (my_ebook i (fst (getEbook c i))) = i"
    by (simp add: my_ebook_def)
  show "active (my_ebook i (fst (getEbook c i))) = Boolean False"
    using h by (simp add: my_ebook_def)
qed


text \<open>
  C9. On mount with \<open>address\<close> signed in, the published list of My Books is the scan's
  result: the entries built from the listings 1 to count that are truthy and whose
  \<open>author\<close> field is strictly equal to the address, in the order of their ids. The
  author index is requested, and whatever it answers the published list is the same.
  The purchased list is the entries built from the truthy listings of the ids the buyer
  index answered, in its order.
\<close>

theorem my_books_lists:
  "isSignedIn b \<and> getUserAddress b = Some address \<and> address \<noteq> []
   \<longrightarrow> publishedEbooks (fst (MyBooks_useEffect b c s))
         = map (\<lambda>i. my_ebook i (fst (getEbook c i)))
             (filter (\<lambda>i. truthy (fst (getEbook c i))
                        \<and> strict_eq (get_prop (fst (getEbook c i)) ''author'') (StringV address))
                [1..<Suc (fst (getEbookCount c))])
       \<and> Get_author_ebooks address \<in> set (snd (MyBooks_useEffect b c s))
       \<and> publishedEbooks (fst (MyBooks_useEffect b (c\<lparr>get_author_ebooks := answer\<rparr>) s))
         = publishedEbooks (fst (MyBooks_useEffect b c s))
       \<and> purchasedEbooks (fst (MyBooks_useEffect b c s))
         = map (\<lambda>i. my_ebook i (fst (getEbook c i)))
             (filter (\<lambda>i. truthy (fst (getEbook c i))) (fst (getBuyerEbooks c address)))"
proof (intro impI)
  assume h: "isSignedIn b \<and> getUserAddress b = Some address \<and> address \<noteq> []"
  then have w: "window_defined b"
    by (auto simp add: isSignedIn_def split: if_splits)
  have run: "MyBooks_useEffect b c' s =
      loadMyBooks c' (s\<lparr>walletConnected := True, userAddress := Some address\<rparr>) (Some address)"
    for c'
    using h w by (simp add: MyBooks_useEffect_def Let_def)
  have same: "fst (getEbook (c\<lparr>get_author_ebooks := answer\<rparr>) i) = fst (getEbook c i)"
    "fst (getEbookCount (c\<lparr>get_author_ebooks := answer\<rparr>)) = fst (getEbookCount c)" for i
    by (simp_all add: getEbook_def getEbookCount_def)
  from h show "publishedEbooks (fst (MyBooks_useEffect b c s))
         = map (\<lambda>i. my_ebook i (fst (getEbook c i)))
             (filter (\<lambda>i. truthy (fst (getEbook c i))
                        \<and> strict_eq (get_prop (fst (getEbook c i)) ''author'') (StringV address))
                [1..<Suc (fst (getEbookCount c))])
       \<and> Get_author_ebooks address \<in> set (snd (MyBooks_useEffect b c s))
       \<and> publishedEbooks (fst (MyBooks_useEffect b (c\<lparr>get_author_ebooks := answer\<rparr>) s))
         = publishedEbooks (fst (MyBooks_useEffect b c s))
       \<and> purchasedEbooks (fst (MyBooks_useEffect b c s))
         = map (\<lambda>i. my_ebook i (fst (getEbook c i)))
             (filter (\<lambda>i. truthy (fst (getEbook c i))) (fst (getBuyerEbooks c address)))"
    by (simp add: run loadMyBooks_eq same del: upt_Suc)
qed

theorem my_books_lists_witness:
  "isSignedIn example_browser \<and> getUserAddress example_browser = Some ''SP1'' \<and> ''SP1'' \<noteq> []
   \<and> publishedEbooks (fst (MyBooks_useEffect example_browser example_contract example_my_books))
       = map (\<lambda>i. my_ebook i (fst (getEbook example_contract i)))
           (filter (\<lambda>i. truthy (fst (getEbook example_contract i))
                      \<and> strict_eq (get_prop (fst (getEbook example_contract i)) ''author'')
                           (StringV ''SP1''))
              [1..<Suc (fst (getEbookCount example_contract))])
   \<and> Get_author_ebooks ''SP1''
       \<in> set (snd (MyBooks_useEffect example_browser example_contract example_my_books))
   \<and> publishedEbooks (fst (MyBooks_useEffect example_browser
         (example_contract\<lparr>get_author_ebooks := (\<lambda>a. Returns (Some [2]))\<rparr>) example_my_books))
       = publishedEbooks (fst (MyBooks_useEffect example_browser example_contract example_my_books))
   \<and> purchasedEbooks (fst (MyBooks_useEffect example_browser example_contract example_my_books))
       = map (\<lambda>i. my_ebook i (fst (getEbook example_contract i)))
           (filter (\<lambda>i. truthy (fst (getEbook example_contract i)))
              (fst (getBuyerEbooks example_contract ''SP1'')))"
proof -
  have h: "isSignedIn example_browser \<and> getUserAddress example_browser = Some ''SP1''
      \<and> ''SP1'' \<noteq> []"
    by (simp add: isSignedIn_def getUserAddress_def network_or_default_def example_browser_def)
  from my_books_lists [of example_browser "''SP1''" example_contract example_my_books
      "\<lambda>a. Returns (Some [2])"] h
  show ?thesis by blast
qed

text \<open>
  C10. Let the listing fetched for an id \<open>i\<close> be truthy and have no \<open>active\<close> field, or
  the field \<open>undefined\<close>. The entry My Books builds from it has \<open>active\<close> true; it is in
  the published list when \<open>i\<close> is between 1 and the count and the \<open>author\<close> field is
  strictly equal to the address, and in the purchased list when the buyer index answers
  \<open>i\<close>. No entry of the result of \<open>getAllEbooks\<close> has the id \<open>i\<close>.
\<close>

theorem missing_active_flag:
  "truthy (fst (getEbook c i)) \<and> get_prop (fst (getEbook c i)) ''active'' = Undefined
   \<longrightarrow> active (my_ebook i (fst (getEbook c i))) = Boolean True
       \<and> ebook_id (my_ebook i (fst (getEbook c i))) = i
       \<and> (address \<noteq> [] \<and> 1 \<le> i \<and> i \<le> fst (getEbookCount c)
            \<and> strict_eq (get_prop (fst (getEbook c i)) ''author'') (StringV address)
          \<longrightarrow> my_ebook i (fst (getEbook c i))
                \<in> set (publishedEbooks (fst (loadMyBooks c s (Some address)))))
       \<and> (address \<noteq> [] \<and> i \<in> set (fst (getBuyerEbooks c address))
          \<longrightarrow> my_ebook i (fst (getEbook c i))
                \<in> set (purchasedEbooks (fst (loadMyBooks c s (Some address)))))
       \<and> i \<notin> ebook_id ` set (fst (getAllEbooks c))"
proof (intro impI conjI)
  assume h: "truthy (fst (getEbook c i)) \<and> get_prop (fst (getEbook c i)) ''active'' = Undefined"
  show "active (my_ebook i (fst (getEbook c i))) = Boolean True"
    using h by (simp add: my_ebook_def)
  show "ebook_id (my_ebook i (fst (getEbook c i))) = i"
    by (simp add: my_ebook_def)
  show "i \<notin> ebook_id ` set (fst (getAllEbooks c))"
    using h by (auto simp add: getAllEbooks_eq listed_ebook_def simp del: upt_Suc)
next
  assume h: "truthy (fst (getEbook c i)) \<and> get_prop (fst (getEbook c i)) ''active'' = Undefined"
    and a: "address \<noteq> [] \<and> 1 \<le> i \<and> i \<le> fst (getEbookCount c)
            \<and> strict_eq (get_prop (fst (getEbook c i)) ''author'') (StringV address)"
  then show "my_ebook i (fst (getEbook c i))
                \<in> set (publishedEbooks (fst (loadMyBooks c s (Some address))))"
    by (simp add: loadMyBooks_eq del: upt_Suc)
next
  assume h: "truthy (fst (getEbook c i)) \<and> get_prop (fst (getEbook c i)) ''active'' = Undefined"
    and a: "address \<noteq> [] \<and> i \<in> set (fst (getBuyerEbooks c address))"
  then show "my_ebook i (fst (getEbook c i))
                \<in> set (purchasedEbooks (fst (loadMyBooks c s (Some address))))"
    by (simp add: loadMyBooks_eq del: upt_Suc)
qed

theorem missing_active_flag_witness:
  "truthy (fst (getEbook example_contract 3))
   \<and> get_prop (fst (getEbook example_contract 3)) ''active'' = Undefined
   \<and> active (my_ebook 3 (fst (getEbook example_contract 3))) = Boolean True
   \<and> ''SP1'' \<noteq> [] \<and> (1::nat) \<le> 3 \<and> 3 \<le> fst (getEbookCount example_contract)
   \<and> strict_eq (get_prop (fst (getEbook example_contract 3)) ''author'') (StringV ''SP1'')
   \<and> my_ebook 3 (fst (getEbook example_contract 3))
        \<in> set (publishedEbooks (fst (loadMyBooks example_contract example_my_books (Some ''SP1''))))
   \<and> 3 \<in> set (fst (getBuyerEbooks example_contract ''SP1''))
   \<and> my_ebook 3 (fst (getEbook example_contract 3))
        \<in> set (purchasedEbooks (fst (loadMyBooks example_contract example_my_books (Some ''SP1''))))
   \<and> 3 \<notin> ebook_id ` set (fst (getAllEbooks example_contract))"
proof -
  have h: "truthy (fst (getEbook example_contract 3))
     \<and> get_prop (fst (getEbook example_contract 3)) ''active'' = Undefined"
    by (simp add: getEbook_def example_contract_def)
  have a: "''SP1'' \<noteq> [] \<and> (1::nat) \<le> 3 \<and> 3 \<le> fst (getEbookCount example_contract)
     \<and> strict_eq (get_prop (fst (getEbook example_contract 3)) ''author'') (StringV ''SP1'')"
    by (simp add: getEbook_def getEbookCount_def example_contract_def)
  have p: "''SP1'' \<noteq> [] \<and> 3 \<in> set (fst (getBuyerEbooks example_contract ''SP1''))"
    by (simp add: getBuyerEbooks_def example_contract_def)
  from missing_active_flag [of example_contract 3 "''SP1''" example_my_books] h a p
  show ?thesis by blast
qed

section \<open>The read-access layer: failures\<close>

text \<open>
  C6. When its remote call throws, each read function returns its default: \<open>getEbook\<close>
  \<open>null\<close>, \<open>getEbookCount\<close> 0, \<open>hasAccess\<close> and \<open>isAuthor\<close> \<open>false\<close>,
  \<open>getAuthorEbooks\<close> and \<open>getBuyerEbooks\<close> the empty array. The caller gets exactly
  what it gets from a contract that answers without failure \<open>null\<close>, 0, \<open>false\<close> or the
  empty array.
\<close>

theorem read_failure_defaults:
  "(get_ebook c i = Throws
      \<longrightarrow> fst (getEbook c i) = Null
          \<and> getEbook c i = getEbook (c\<lparr>get_ebook := (\<lambda>j. Returns Null)\<rparr>) i)
   \<and> (get_ebook_count c = Throws
      \<longrightarrow> fst (getEbookCount c) = 0
          \<and> getEbookCount c = getEbookCount (c\<lparr>get_ebook_count := Returns 0\<rparr>))
   \<and> (has_access c a i = Throws
      \<longrightarrow> fst (hasAccess c a i) = False
          \<and> hasAccess c a i = hasAccess (c\<lparr>has_access := (\<lambda>x j. Returns False)\<rparr>) a i)
   \<and> (is_author c i a = Throws
      \<longrightarrow> fst (isAuthor c i a) = False
          \<and> isAuthor c i a = isAuthor (c\<lparr>is_author := (\<lambda>j x. Returns False)\<rparr>) i a)
   \<and> (get_author_ebooks c a = Throws
      \<longrightarrow> fst (getAuthorEbooks c a) = []
          \<and> getAuthorEbooks c a
              = getAuthorEbooks (c\<lparr>get_author_ebooks := (\<lambda>x. Returns (Some []))\<rparr>) a)
   \<and> (get_buyer_ebooks c a = Throws
      \<longrightarrow> fst (getBuyerEbooks c a) = []
          \<and> getBuyerEbooks c a
              = getBuyerEbooks (c\<lparr>get_buyer_ebooks := (\<lambda>x. Returns (Some []))\<rparr>) a)"
  by (simp add: getEbook_def getEbookCount_def hasAccess_def isAuthor_def
        getAuthorEbooks_def getBuyerEbooks_def)

theorem read_failure_defaults_witness:
  "get_ebook unreachable_contract 1 = Throws
   \<and> fst (getEbook unreachable_contract 1) = Null
   \<and> get_ebook_count unreachable_contract = Throws
   \<and> fst (getEbookCount unreachable_contract) = 0
   \<and> has_access unreachable_contract ''SP1'' 1 = Throws
   \<and> fst (hasAccess unreachable_contract ''SP1'' 1) = False
   \<and> is_author unreachable_contract 1 ''SP1'' = Throws
   \<and> fst (isAuthor unreachable_contract 1 ''SP1'') = False
   \<and> get_author_ebooks unreachable_contract ''SP1'' = Throws
   \<and> fst (getAuthorEbooks unreachable_contract ''SP1'') = []
   \<and> get_buyer_ebooks unreachable_contract ''SP1'' = Throws
   \<and> fst (getBuyerEbooks unreachable_contract ''SP1'') = []"
proof -
  have h: "get_ebook unreachable_contract 1 = Throws"
    "get_ebook_count unreachable_contract = Throws"
    "has_access unreachable_contract ''SP1'' 1 = Throws"
    "is_author unreachable_contract 1 ''SP1'' = Throws"
    "get_author_ebooks unreachable_contract ''SP1'' = Throws"
    "get_buyer_ebooks unreachable_contract ''SP1'' = Throws"
    by (simp_all add: unreachable_contract_def)
  from read_failure_defaults [of unreachable_contract 1 "''SP1''"] h
  show ?thesis by blast
qed

section \<open>The session holder: who is signed in\<close>

text \<open>
  C8. Without a \<open>window\<close>, \<open>isSignedIn\<close> is false. When \<open>isSignedIn\<close> is false,
  \<open>getUserAddress\<close> is \<open>null\<close>. Otherwise it is the mainnet identifier when the network
  the function reads is \<open>mainnet\<close>, and the testnet identifier for every other network.
  The network it reads is the variable's value, with \<open>mainnet\<close> for a variable that is
  not set or empty.
\<close>

theorem session_address:
  "(\<not> window_defined b \<longrightarrow> isSignedIn b = False)
   \<and> (\<not> isSignedIn b \<longrightarrow> getUserAddress b = None)
   \<and> (isSignedIn b \<and> network_or_default b = ''mainnet''
      \<longrightarrow> getUserAddress b = Some (stxAddress_mainnet b))
   \<and> (isSignedIn b \<and> network_or_default b \<noteq> ''mainnet''
      \<longrightarrow> getUserAddress b = Some (stxAddress_testnet b))
   \<and> (network_or_default b = ''mainnet''
        \<longleftrightarrow> NEXT_PUBLIC_NETWORK b \<in> {None, Some [], Some ''mainnet''})
   \<and> (network_or_default b \<noteq> ''mainnet''
        \<longleftrightarrow> network_or_default b \<noteq> [] \<and> NEXT_PUBLIC_NETWORK b = Some (network_or_default b)
            \<and> NEXT_PUBLIC_NETWORK b \<noteq> Some ''mainnet'')"
  by (auto simp add: isSignedIn_def getUserAddress_def network_or_default_def Let_def
        split: option.splits)

theorem session_address_witness:
  "\<not> window_defined (example_browser\<lparr>window_defined := False\<rparr>)
   \<and> isSignedIn (example_browser\<lparr>window_defined := False\<rparr>) = False
   \<and> getUserAddress (example_browser\<lparr>window_defined := False\<rparr>) = None
   \<and> isSignedIn example_browser
   \<and> network_or_default example_browser = ''mainnet''
   \<and> getUserAddress example_browser = Some ''SP1''
   \<and> isSignedIn (example_browser\<lparr>NEXT_PUBLIC_NETWORK := Some ''devnet''\<rparr>)
   \<and> network_or_default (example_browser\<lparr>NEXT_PUBLIC_NETWORK := Some ''devnet''\<rparr>) \<noteq> ''mainnet''
   \<and> getUserAddress (example_browser\<lparr>NEXT_PUBLIC_NETWORK := Some ''devnet''\<rparr>) = Some ''ST1''"
proof -
  have h: "\<not> window_defined (example_browser\<lparr>window_defined := False\<rparr>)"
    "isSignedIn example_browser \<and> network_or_default example_browser = ''mainnet''"
    "isSignedIn (example_browser\<lparr>NEXT_PUBLIC_NETWORK := Some ''devnet''\<rparr>)
     \<and> network_or_default (example_browser\<lparr>NEXT_PUBLIC_NETWORK := Some ''devnet''\<rparr>) \<noteq> ''mainnet''"
    by (simp_all add: isSignedIn_def network_or_default_def example_browser_def)
  have v: "stxAddress_mainnet example_browser = ''SP1''"
    "stxAddress_testnet (example_browser\<lparr>NEXT_PUBLIC_NETWORK := Some ''devnet''\<rparr>) = ''ST1''"
    by (simp_all add: example_browser_def)
  from session_address [of "example_browser\<lparr>window_defined := False\<rparr>"]
    session_address [of example_browser]
    session_address [of "example_browser\<lparr>NEXT_PUBLIC_NETWORK := Some ''devnet''\<rparr>"] h v
  show ?thesis by metis
qed

section \<open>Publishing an ebook: validation and the request\<close>

text \<open>
  C3. A submission whose title is empty after trimming, whose price is empty or parses
  to a number that is \<open><= 0\<close>, or whose content identifier is empty after trimming, ends
  with the inline error set and has issued no request.
\<close>

theorem invalid_submission_rejected:
  "trim (form_title f) = [] \<or> form_price f = []
     \<or> num_le (parseFloat (form_price f)) (Finite 0) \<or> trim (form_ipfsCid f) = []
   \<longrightarrow> upload_error (fst (handleSubmit b p f s)) \<noteq> None
       \<and> snd (handleSubmit b p f s) = []"
  by (simp add: handleSubmit_def Let_def)

theorem invalid_submission_rejected_witness:
  "trim (form_title (example_form\<lparr>form_title := ''  ''\<rparr>)) = []
   \<and> upload_error (fst (handleSubmit example_browser example_platform
         (example_form\<lparr>form_title := ''  ''\<rparr>) example_page)) \<noteq> None
   \<and> snd (handleSubmit example_browser example_platform
         (example_form\<lparr>form_title := ''  ''\<rparr>) example_page) = []
   \<and> num_le (parseFloat (form_price (example_form\<lparr>form_price := ''0''\<rparr>))) (Finite 0)
   \<and> upload_error (fst (handleSubmit example_browser example_platform
         (example_form\<lparr>form_price := ''0''\<rparr>) example_page)) \<noteq> None
   \<and> snd (handleSubmit example_browser example_platform
         (example_form\<lparr>form_price := ''0''\<rparr>) example_page) = []
   \<and> num_le (parseFloat (form_price (example_form\<lparr>form_price := ''-2.5''\<rparr>))) (Finite 0)
   \<and> upload_error (fst (handleSubmit example_browser example_platform
         (example_form\<lparr>form_price := ''-2.5''\<rparr>) example_page)) \<noteq> None
   \<and> snd (handleSubmit example_browser example_platform
         (example_form\<lparr>form_price := ''-2.5''\<rparr>) example_page) = []
   \<and> trim (form_ipfsCid (example_form\<lparr>form_ipfsCid := []\<rparr>)) = []
   \<and> upload_error (fst (handleSubmit example_browser example_platform
         (example_form\<lparr>form_ipfsCid := []\<rparr>) example_page)) \<noteq> None
   \<and> snd (handleSubmit example_browser example_platform
         (example_form\<lparr>form_ipfsCid := []\<rparr>) example_page) = []"
proof -
  have h: "trim (form_title (example_form\<lparr>form_title := ''  ''\<rparr>)) = []"
    "num_le (parseFloat (form_price (example_form\<lparr>form_price := ''0''\<rparr>))) (Finite 0)"
    "num_le (parseFloat (form_price (example_form\<lparr>form_price := ''-2.5''\<rparr>))) (Finite 0)"
    "trim (form_ipfsCid (example_form\<lparr>form_ipfsCid := []\<rparr>)) = []"
    by (simp_all add: trim_def isWhiteSpace_def parseFloat_examples)
  from invalid_submission_rejected
      [of "example_form\<lparr>form_title := ''  ''\<rparr>" example_browser example_platform example_page]
    invalid_submission_rejected
      [of "example_form\<lparr>form_price := ''0''\<rparr>" example_browser example_platform example_page]
    invalid_submission_rejected
      [of "example_form\<lparr>form_price := ''-2.5''\<rparr>" example_browser example_platform example_page]
    invalid_submission_rejected
      [of "example_form\<lparr>form_ipfsCid := []\<rparr>" example_browser example_platform example_page]
    h
  show ?thesis by blast
qed

text \<open>
  C7. A submission that issues a request issues one request, for \<open>register-ebook\<close>,
  whose content hash is the SHA-256 digest \<open>crypto.subtle.digest\<close> returned for the
  encoded content identifier as typed. The selected file has no part in it: with any
  other file, or none, the submission does the same. (That the digest has 32 bytes is a
  property of SHA-256, which is the platform's.)
\<close>

theorem content_hash_of_identifier:
  "handleSubmit b p (f\<lparr>form_file := other\<rparr>) s = handleSubmit b p f s
   \<and> (snd (handleSubmit b p f s) \<noteq> []
      \<longrightarrow> (\<exists>h. crypto_subtle_digest p ''SHA-256'' (TextEncoder_encode (form_ipfsCid f))
                  = Returns h
               \<and> snd (handleSubmit b p f s)
                  = [Register_ebook (form_title f) (form_description f) h
                       (stxToMicroStx (parseFloat (form_price f)))]))"
proof (intro conjI impI)
  show "handleSubmit b p (f\<lparr>form_file := other\<rparr>) s = handleSubmit b p f s"
    by (simp add: handleSubmit_def Let_def split: outcome.splits)
  assume "snd (handleSubmit b p f s) \<noteq> []"
  then show "\<exists>h. crypto_subtle_digest p ''SHA-256'' (TextEncoder_encode (form_ipfsCid f))
                  = Returns h
               \<and> snd (handleSubmit b p f s)
                  = [Register_ebook (form_title f) (form_description f) h
                       (stxToMicroStx (parseFloat (form_price f)))]"
    by (auto simp add: handleSubmit_def Let_def registerEbook_def
          split: if_splits outcome.splits)
qed

theorem content_hash_of_identifier_witness:
  "snd (handleSubmit example_browser example_platform example_form example_page) \<noteq> []
   \<and> crypto_subtle_digest example_platform ''SHA-256''
        (TextEncoder_encode (form_ipfsCid example_form))
       = Returns (take 32 (TextEncoder_encode ''Qm'' @ replicate 32 0))
   \<and> snd (handleSubmit example_browser example_platform example_form example_page)
       = [Register_ebook ''Book'' ''Text'' (take 32 (TextEncoder_encode ''Qm'' @ replicate 32 0))
            (stxToMicroStx (parseFloat ''2.5''))]
   \<and> handleSubmit example_browser example_platform
        (example_form\<lparr>form_file := Some (''book.pdf'', [37, 80, 68, 70])\<rparr>) example_page
       = handleSubmit example_browser example_platform example_form example_page"
proof -
  have accepted:
    "snd (handleSubmit example_browser example_platform example_form example_page) \<noteq> []"
    by (simp add: handleSubmit_def Let_def registerEbook_def isSignedIn_def trim_def
          isWhiteSpace_def parseFloat_examples
          example_browser_def example_platform_def example_form_def example_page_def)
  have digest: "crypto_subtle_digest example_platform ''SHA-256''
        (TextEncoder_encode (form_ipfsCid example_form))
       = Returns (take 32 (TextEncoder_encode ''Qm'' @ replicate 32 0))"
    by (simp add: example_platform_def example_form_def)
  have fields: "form_title example_form = ''Book''" "form_description example_form = ''Text''"
    "form_price example_form = ''2.5''"
    by (simp_all add: example_form_def)
  from content_hash_of_identifier
      [where b = example_browser and p = example_platform and f = example_form
         and other = "Some (''book.pdf'', [37, 80, 68, 70])" and s = example_page]
    accepted digest fields
  show ?thesis by auto
qed

text \<open>
  C2, at one input. The price \<open>0.0000005\<close> passes the validation, since it parses to a
  number that is not \<open><= 0\<close>, and the request \<open>handleSubmit\<close> issues carries the price 0:
  the floor of the product, which is one half.
\<close>

theorem price_below_one_micro_unit:
  "form_price (example_form\<lparr>form_price := ''0.0000005''\<rparr>) \<noteq> []
   \<and> \<not> num_le (parseFloat ''0.0000005'') (Finite 0)
   \<and> num_times (parseFloat ''0.0000005'') (Finite 1000000) = Finite (1 / 2)
   \<and> snd (handleSubmit example_browser example_platform
         (example_form\<lparr>form_price := ''0.0000005''\<rparr>) example_page)
       = [Register_ebook ''Book'' ''Text'' (take 32 (TextEncoder_encode ''Qm'' @ replicate 32 0))
            (Finite 0)]"
  by (simp add: handleSubmit_def Let_def registerEbook_def isSignedIn_def trim_def
        isWhiteSpace_def parseFloat_examples stxToMicroStx_def binary64_eval
        example_browser_def example_platform_def example_form_def example_page_def)

end
